theory Spec2Isabelle
  imports Complex_Main
begin

section \<open>The catalog response\<close>

text \<open>
  The input of \<^verbatim>\<open>createVariantAvailabilityMap\<close> is the array
  \<^verbatim>\<open>allVariantProducts\<close> of the product query. Its element type is written inline in
  the signature; the records below carry the names of the GraphQL types the fields come
  from. A field declared with \<^verbatim>\<open>?\<close> is an \<open>option\<close> (\<open>None\<close> stands for both
  \<^verbatim>\<open>undefined\<close> and \<^verbatim>\<open>null\<close>, which \<^verbatim>\<open>?.\<close> and \<^verbatim>\<open>??\<close> treat alike).

  Numbers arrive JSON-decoded, so they are finite, and the code only compares them:
  they are modelled as rationals, on which \<open><\<close> and \<open>\<le>\<close> agree with the comparison
  of the doubles.

  The fields \<^verbatim>\<open>value\<close> of \<^verbatim>\<open>inventoryLevel\<close> and \<^verbatim>\<open>identifier\<close> of \<^verbatim>\<open>seller\<close> are
  written \<open>value'\<close> and \<open>identifier'\<close>: the plain words are reserved in Isabelle. The
  output record declares \<open>availability\<close>, \<open>quantity\<close> and \<open>lowPrice\<close> again, so the
  fields of the input are written with their record's name where both are in scope
  (\<open>StoreOffer.quantity\<close>, \<open>StoreAggregateOffer.lowPrice\<close>).
\<close>

type_synonym number = rat

record InventoryLevel =
  value' :: number

record StoreOrganization =
  identifier' :: string

record StoreOffer =
  availability :: "string option"
  quantity :: "number option"
  inventoryLevel :: "InventoryLevel option"
  seller :: "StoreOrganization option"

record StoreAggregateOffer =
  lowPrice :: number
  offers :: "StoreOffer list option"

record StoreProduct =
  name :: string
  productID :: string
  offers :: "StoreAggregateOffer option"

section \<open>Plain objects used as dictionaries\<close>

text \<open>
  \<^verbatim>\<open>AvailabilityMap = Record<string, VariantAvailability>\<close> is a plain object created by
  the literal \<^verbatim>\<open>{}\<close>, so its prototype is \<^verbatim>\<open>Object.prototype\<close>. The model keeps what
  the two operations of the code on it, \<^verbatim>\<open>map[k] = d\<close> and \<^verbatim>\<open>map[k]\<close>, depend on: the own
  properties, and the prototype when an assignment to \<^verbatim>\<open>__proto__\<close> has replaced it
  (\<open>None\<close>: still \<^verbatim>\<open>Object.prototype\<close>). The two operations follow the ordinary
  \<^verbatim>\<open>[[Set]]\<close> and \<^verbatim>\<open>[[Get]]\<close> of ECMAScript objects, which walk the prototype chain, and
  the accessor property \<^verbatim>\<open>Object.prototype.__proto__\<close>.
\<close>

record 'd js_object =
  own :: "string \<rightharpoonup> 'd"
  proto :: "'d option"

text \<open>What a property read can return: \<^verbatim>\<open>undefined\<close>, a stored object, a primitive
  inherited from a replaced prototype, or a member of \<^verbatim>\<open>Object.prototype\<close> (\<open>JSBuiltin\<close>:
  one of its functions, or \<^verbatim>\<open>Object.prototype\<close> itself for \<^verbatim>\<open>__proto__\<close>; each is truthy
  and has no property \<^verbatim>\<open>isAvailable\<close>).\<close>

datatype 'd js_value =
    JSUndefined
  | JSObject 'd
  | JSBoolean bool
  | JSNumber number
  | JSString string
  | JSBuiltin

definition Object_prototype_keys :: "string list" where
  "Object_prototype_keys =
     [''constructor'', ''hasOwnProperty'', ''isPrototypeOf'', ''propertyIsEnumerable'',
      ''toLocaleString'', ''toString'', ''valueOf'', ''__proto__'',
      ''__defineGetter__'', ''__defineSetter__'', ''__lookupGetter__'', ''__lookupSetter__'']"

definition empty_object :: "'d js_object" where
  "empty_object = \<lparr>own = Map.empty, proto = None\<rparr>"

text \<open>\<^verbatim>\<open>map[k] = d\<close>. Every member of \<^verbatim>\<open>Object.prototype\<close> is a writable data property,
  which an assignment shadows by an own property, except the accessor \<^verbatim>\<open>__proto__\<close>:
  its setter makes the object \<open>d\<close> the prototype of \<open>map\<close> and creates no property.\<close>

definition js_set :: "'d js_object \<Rightarrow> string \<Rightarrow> 'd \<Rightarrow> 'd js_object" where
  "js_set m k d =
     (if k = ''__proto__'' \<and> own m k = None then m\<lparr>proto := Some d\<rparr>
      else m\<lparr>own := (own m)(k \<mapsto> d)\<rparr>)"

text \<open>\<^verbatim>\<open>map[k]\<close>: the own property, else the property of the replaced prototype (\<open>props\<close>
  lists the properties of a stored object literal), else the member of
  \<^verbatim>\<open>Object.prototype\<close>, where the getter of \<^verbatim>\<open>__proto__\<close> returns the prototype.\<close>

definition js_get ::
  "('d \<Rightarrow> string \<rightharpoonup> 'd js_value) \<Rightarrow> 'd js_object \<Rightarrow> string \<Rightarrow> 'd js_value" where
  "js_get props m k =
     (case own m k of
        Some d \<Rightarrow> JSObject d
      | None \<Rightarrow>
          (case proto m of
             None \<Rightarrow> if k \<in> set Object_prototype_keys then JSBuiltin else JSUndefined
           | Some p \<Rightarrow>
               (case props p k of
                  Some x \<Rightarrow> x
                | None \<Rightarrow>
                    if k = ''__proto__'' then JSObject p
                    else if k \<in> set Object_prototype_keys then JSBuiltin
                    else JSUndefined)))"

text \<open>\<^verbatim>\<open>!x\<close> is \<open>\<not> truthy x\<close>.\<close>

fun truthy :: "'d js_value \<Rightarrow> bool" where
  "truthy JSUndefined = False"
| "truthy (JSObject d) = True"
| "truthy (JSBoolean b) = b"
| "truthy (JSNumber n) = (n \<noteq> 0)"
| "truthy (JSString s) = (s \<noteq> [])"
| "truthy JSBuiltin = True"

section \<open>The availability map\<close>

record VariantAvailability =
  isAvailable :: bool
  quantity :: number
  availability :: string
  lowPrice :: number

text \<open>The properties of the object literal, as a read through the prototype chain
  finds them.\<close>

definition VariantAvailability_fields ::
  "'z VariantAvailability_scheme \<Rightarrow> string \<rightharpoonup> 'd js_value" where
  "VariantAvailability_fields d =
     [''isAvailable'' \<mapsto> JSBoolean (isAvailable d),
      ''quantity'' \<mapsto> JSNumber (quantity d),
      ''availability'' \<mapsto> JSString (availability d),
      ''lowPrice'' \<mapsto> JSNumber (lowPrice d)]"

definition InStock :: string where
  "InStock = ''https://schema.org/InStock''"

definition PreOrder :: string where
  "PreOrder = ''https://schema.org/PreOrder''"

definition BackOrder :: string where
  "BackOrder = ''https://schema.org/BackOrder''"

text \<open>\<^verbatim>\<open>const offer = variant.offers?.offers?.[0]\<close>\<close>

definition firstOffer :: "StoreProduct \<Rightarrow> StoreOffer option" where
  "firstOffer variant =
     (case StoreProduct.offers variant of
        None \<Rightarrow> None
      | Some agg \<Rightarrow>
          (case StoreAggregateOffer.offers agg of
             None \<Rightarrow> None
           | Some [] \<Rightarrow> None
           | Some (x # _) \<Rightarrow> Some x))"

text \<open>\<^verbatim>\<open>const availability = offer?.availability || ""\<close>\<close>

definition offerAvailability :: "StoreOffer option \<Rightarrow> string" where
  "offerAvailability offer =
     (case offer of
        None \<Rightarrow> []
      | Some x \<Rightarrow> (case StoreOffer.availability x of None \<Rightarrow> [] | Some s \<Rightarrow> s))"

text \<open>\<^verbatim>\<open>const quantity = offer?.quantity ?? offer?.inventoryLevel?.value ?? 0\<close>\<close>

definition offerQuantity :: "StoreOffer option \<Rightarrow> number" where
  "offerQuantity offer =
     (case offer of
        None \<Rightarrow> 0
      | Some x \<Rightarrow>
          (case StoreOffer.quantity x of
             Some q \<Rightarrow> q
           | None \<Rightarrow> (case inventoryLevel x of None \<Rightarrow> 0 | Some il \<Rightarrow> value' il)))"

text \<open>\<^verbatim>\<open>const lowPrice = variant.offers?.lowPrice ?? 0\<close>\<close>

definition variantLowPrice :: "StoreProduct \<Rightarrow> number" where
  "variantLowPrice variant =
     (case StoreProduct.offers variant of
        None \<Rightarrow> 0
      | Some agg \<Rightarrow> StoreAggregateOffer.lowPrice agg)"

text \<open>The object literal that the reducer stores under \<^verbatim>\<open>variant.name\<close>.\<close>

definition variantAvailability :: "StoreProduct \<Rightarrow> VariantAvailability" where
  "variantAvailability variant =
     (let offer = firstOffer variant;
          a = offerAvailability offer;
          q = offerQuantity offer;
          p = variantLowPrice variant
      in \<lparr>isAvailable = (a = InStock \<and> q > 0 \<and> p > 0),
          quantity = q, availability = a, lowPrice = p\<rparr>)"

text \<open>\<^verbatim>\<open>allVariantProducts.reduce((map, variant) => { ...; map[variant.name] = {...};
  return map }, {})\<close>, with the object literal as a parameter: every revision of the
  function keeps this loop and changes the literal.\<close>

definition reduceVariants ::
  "(StoreProduct \<Rightarrow> 'd) \<Rightarrow> StoreProduct list \<Rightarrow> 'd js_object" where
  "reduceVariants literal vs =
     foldl (\<lambda>m variant. js_set m (name variant) (literal variant)) empty_object vs"

definition createVariantAvailabilityMap ::
  "StoreProduct list option \<Rightarrow> VariantAvailability js_object" where
  "createVariantAvailabilityMap allVariantProducts =
     (case allVariantProducts of
        None \<Rightarrow> empty_object
      | Some vs \<Rightarrow> reduceVariants variantAvailability vs)"

text \<open>\<^verbatim>\<open>isVariantDisabled(optionValue, availabilityMap)\<close>. When \<^verbatim>\<open>variantData\<close> is truthy
  and not one of the stored objects, \<^verbatim>\<open>variantData.isAvailable\<close> is \<^verbatim>\<open>undefined\<close> and its
  negation is \<^verbatim>\<open>true\<close>.\<close>

definition isVariantDisabled ::
  "('z VariantAvailability_scheme \<Rightarrow> string \<rightharpoonup> 'z VariantAvailability_scheme js_value) \<Rightarrow>
   string \<Rightarrow> 'z VariantAvailability_scheme js_object \<Rightarrow> bool" where
  "isVariantDisabled props optionValue availabilityMap =
     (let variantData = js_get props availabilityMap optionValue
      in if \<not> truthy variantData then False
         else (case variantData of JSObject d \<Rightarrow> \<not> isAvailable d | _ \<Rightarrow> True))"

subsection \<open>Feature 1: low stock warnings\<close>

record VariantAvailability_lowStock = VariantAvailability +
  isLowStock :: bool

definition VariantAvailability_lowStock_fields ::
  "'z VariantAvailability_lowStock_scheme \<Rightarrow> string \<rightharpoonup> 'd js_value" where
  "VariantAvailability_lowStock_fields d =
     (VariantAvailability_fields d)(''isLowStock'' \<mapsto> JSBoolean (isLowStock d))"

definition LOW_STOCK_THRESHOLD :: number where
  "LOW_STOCK_THRESHOLD = 10"

definition variantAvailability_lowStock ::
  "number \<Rightarrow> StoreProduct \<Rightarrow> VariantAvailability_lowStock" where
  "variantAvailability_lowStock lowStockThreshold variant =
     (let offer = firstOffer variant;
          a = offerAvailability offer;
          q = offerQuantity offer;
          p = variantLowPrice variant
      in \<lparr>isAvailable = (a = InStock \<and> q > 0 \<and> p > 0),
          quantity = q, availability = a, lowPrice = p,
          isLowStock = (q > 0 \<and> q \<le> lowStockThreshold)\<rparr>)"

text \<open>The second parameter is \<^verbatim>\<open>lowStockThreshold: number = LOW_STOCK_THRESHOLD\<close>: \<open>None\<close> is
  the omitted argument. Nothing checks the number that is passed.\<close>

definition createVariantAvailabilityMap_lowStock ::
  "StoreProduct list option \<Rightarrow> number option \<Rightarrow> VariantAvailability_lowStock js_object" where
  "createVariantAvailabilityMap_lowStock allVariantProducts threshold =
     (let lowStockThreshold = (case threshold of None \<Rightarrow> LOW_STOCK_THRESHOLD | Some t \<Rightarrow> t)
      in case allVariantProducts of
           None \<Rightarrow> empty_object
         | Some vs \<Rightarrow> reduceVariants (variantAvailability_lowStock lowStockThreshold) vs)"

subsection \<open>Feature 3: pre-order support\<close>

record VariantAvailability_preOrder = VariantAvailability_lowStock +
  isPreOrder :: bool
  isBackOrder :: bool

definition VariantAvailability_preOrder_fields ::
  "'z VariantAvailability_preOrder_scheme \<Rightarrow> string \<rightharpoonup> 'd js_value" where
  "VariantAvailability_preOrder_fields d =
     (VariantAvailability_lowStock_fields d)
       (''isPreOrder'' \<mapsto> JSBoolean (isPreOrder d), ''isBackOrder'' \<mapsto> JSBoolean (isBackOrder d))"

text \<open>The literal of this revision reads \<^verbatim>\<open>lowStockThreshold\<close>, the parameter of
  Feature 1.\<close>

definition variantAvailability_preOrder ::
  "number \<Rightarrow> StoreProduct \<Rightarrow> VariantAvailability_preOrder" where
  "variantAvailability_preOrder lowStockThreshold variant =
     (let offer = firstOffer variant;
          a = offerAvailability offer;
          q = offerQuantity offer;
          p = variantLowPrice variant;
          isInStock' = (a = InStock);
          isPreOrder' = (a = PreOrder);
          isBackOrder' = (a = BackOrder)
      in \<lparr>isAvailable = ((isInStock' \<or> isPreOrder' \<or> isBackOrder') \<and> p > 0),
          quantity = q, availability = a, lowPrice = p,
          isLowStock = (q > 0 \<and> q \<le> lowStockThreshold),
          isPreOrder = isPreOrder', isBackOrder = isBackOrder'\<rparr>)"

definition createVariantAvailabilityMap_preOrder ::
  "StoreProduct list option \<Rightarrow> number option \<Rightarrow> VariantAvailability_preOrder js_object" where
  "createVariantAvailabilityMap_preOrder allVariantProducts threshold =
     (let lowStockThreshold = (case threshold of None \<Rightarrow> LOW_STOCK_THRESHOLD | Some t \<Rightarrow> t)
      in case allVariantProducts of
           None \<Rightarrow> empty_object
         | Some vs \<Rightarrow> reduceVariants (variantAvailability_preOrder lowStockThreshold) vs)"

subsection \<open>Edge case 1: multiple sellers\<close>

text \<open>\<^verbatim>\<open>offers.find(o => o.seller?.identifier === "1") || offers[0]\<close> on the array of
  offers: the seller is the constant \<^verbatim>\<open>"1"\<close>, not a parameter.\<close>

definition isSellerOne :: "StoreOffer \<Rightarrow> bool" where
  "isSellerOne x = (case seller x of None \<Rightarrow> False | Some s \<Rightarrow> identifier' s = ''1'')"

definition selectOffer :: "StoreOffer list \<Rightarrow> StoreOffer option" where
  "selectOffer os =
     (case find isSellerOne os of
        Some x \<Rightarrow> Some x
      | None \<Rightarrow> (case os of [] \<Rightarrow> None | x # _ \<Rightarrow> Some x))"

definition offer_multiSeller :: "StoreProduct \<Rightarrow> StoreOffer option" where
  "offer_multiSeller variant =
     (case StoreProduct.offers variant of
        None \<Rightarrow> None
      | Some agg \<Rightarrow>
          (case StoreAggregateOffer.offers agg of
             None \<Rightarrow> None
           | Some os \<Rightarrow> selectOffer os))"

text \<open>\<^verbatim>\<open>const quantity = offer?.quantity ?? 0\<close>\<close>

definition offerQuantity_multiSeller :: "StoreOffer option \<Rightarrow> number" where
  "offerQuantity_multiSeller offer =
     (case offer of
        None \<Rightarrow> 0
      | Some x \<Rightarrow> (case StoreOffer.quantity x of Some q \<Rightarrow> q | None \<Rightarrow> 0))"

definition variantAvailability_multiSeller :: "StoreProduct \<Rightarrow> VariantAvailability" where
  "variantAvailability_multiSeller variant =
     (let offer = offer_multiSeller variant;
          a = offerAvailability offer;
          q = offerQuantity_multiSeller offer;
          p = variantLowPrice variant
      in \<lparr>isAvailable = (a = InStock \<and> q > 0 \<and> p > 0),
          quantity = q, availability = a, lowPrice = p\<rparr>)"

definition createVariantAvailabilityMap_multiSeller ::
  "StoreProduct list option \<Rightarrow> VariantAvailability js_object" where
  "createVariantAvailabilityMap_multiSeller allVariantProducts =
     (case allVariantProducts of
        None \<Rightarrow> empty_object
      | Some vs \<Rightarrow> reduceVariants variantAvailability_multiSeller vs)"

subsection \<open>Monitoring\<close>

text \<open>The revision that logs data quality counts. Between the loop and \<^verbatim>\<open>return map\<close>
  it reads \<^verbatim>\<open>process.env.NODE_ENV\<close> and, in development, calls \<^verbatim>\<open>console.log\<close>; neither
  stands in a \<^verbatim>\<open>try\<close>, so an exception of either leaves the function and no map is
  returned. The model makes both explicit:
  \<^item> \<open>NODE_ENV\<close> is \<open>None\<close> when the read throws (no global \<^verbatim>\<open>process\<close>), and else the
    value read, \<open>Some None\<close> for an unset variable;
  \<^item> \<open>console_log\<close> is the sink: it takes the logged record and the console (the list
    of the records logged so far) and returns the new console, or \<open>None\<close> when it throws.

  The percentage is formatted by \<^verbatim>\<open>toFixed\<close> from a floating-point quotient: \<open>percent\<close>
  stands for that formatting and is a parameter.\<close>

record Stats =
  total :: nat
  withOffers :: nat
  withAvailability :: nat
  coverage :: string

type_synonym console = "(string \<times> Stats) list"

datatype thrown = ReferenceError | ConsoleError

definition availabilityStats :: "(nat \<Rightarrow> nat \<Rightarrow> string) \<Rightarrow> StoreProduct list \<Rightarrow> Stats" where
  "availabilityStats percent vs =
     (let totalVariants = length vs;
          variantsWithOffers = length (filter (\<lambda>v. StoreProduct.offers v \<noteq> None) vs);
          variantsWithAvailability =
            length (filter (\<lambda>v. offerAvailability (firstOffer v) \<noteq> []) vs)
      in \<lparr>total = totalVariants, withOffers = variantsWithOffers,
          withAvailability = variantsWithAvailability,
          coverage = percent variantsWithAvailability totalVariants\<rparr>)"

definition createVariantAvailabilityMap_monitored ::
  "(nat \<Rightarrow> nat \<Rightarrow> string) \<Rightarrow> string option option \<Rightarrow>
   (string \<times> Stats \<Rightarrow> console \<Rightarrow> console option) \<Rightarrow> console \<Rightarrow>
   StoreProduct list option \<Rightarrow> thrown + VariantAvailability js_object \<times> console" where
  "createVariantAvailabilityMap_monitored percent NODE_ENV console_log out allVariantProducts =
     (case allVariantProducts of
        None \<Rightarrow> Inr (empty_object, out)
      | Some vs \<Rightarrow>
          (let m = reduceVariants variantAvailability vs;
               stats = availabilityStats percent vs
           in case NODE_ENV of
                None \<Rightarrow> Inl ReferenceError
              | Some env \<Rightarrow>
                  if env = Some ''development''
                  then (case console_log (''Variant Availability Stats:'', stats) out of
                          None \<Rightarrow> Inl ConsoleError
                        | Some out' \<Rightarrow> Inr (m, out'))
                  else Inr (m, out)))"

subsection \<open>The inputs of the unit tests and of the examples\<close>

definition variant_Red :: StoreProduct where
  "variant_Red =
     \<lparr>name = ''Red'', productID = ''1'',
      offers = Some \<lparr>StoreAggregateOffer.lowPrice = 50,
        offers = Some [\<lparr>StoreOffer.availability = Some ''https://schema.org/InStock'',
          quantity = Some 100, inventoryLevel = None, seller = None\<rparr>]\<rparr>\<rparr>"

definition variant_Blue :: StoreProduct where
  "variant_Blue =
     \<lparr>name = ''Blue'', productID = ''2'',
      offers = Some \<lparr>StoreAggregateOffer.lowPrice = 0,
        offers = Some [\<lparr>StoreOffer.availability = Some ''https://schema.org/OutOfStock'',
          quantity = Some 0, inventoryLevel = None, seller = None\<rparr>]\<rparr>\<rparr>"

definition variant_Green :: StoreProduct where
  "variant_Green = \<lparr>name = ''Green'', productID = ''3'', offers = None\<rparr>"

definition variant_Yellow :: StoreProduct where
  "variant_Yellow =
     \<lparr>name = ''Yellow'', productID = ''4'',
      offers = Some \<lparr>StoreAggregateOffer.lowPrice = 50,
        offers = Some [\<lparr>StoreOffer.availability = Some ''https://schema.org/InStock'',
          quantity = Some 5, inventoryLevel = None, seller = None\<rparr>]\<rparr>\<rparr>"

text \<open>The first product of the expected response, without the \<open>quantity\<close> of its
  offer.\<close>

definition variant_inventory :: StoreProduct where
  "variant_inventory =
     \<lparr>name = ''980 - Champagne-51'', productID = ''80692'',
      offers = Some \<lparr>StoreAggregateOffer.lowPrice = 406 / 10,
        offers = Some [\<lparr>StoreOffer.availability = Some ''https://schema.org/InStock'',
          quantity = None, inventoryLevel = Some \<lparr>value' = 150\<rparr>,
          seller = Some \<lparr>identifier' = ''1''\<rparr>\<rparr>]\<rparr>\<rparr>"

text \<open>A variant in stock whose aggregate offer carries the price zero, and a variant
  whose name is \<^verbatim>\<open>__proto__\<close>.\<close>

definition variant_unpriced :: StoreProduct where
  "variant_unpriced =
     \<lparr>name = ''Grey'', productID = ''5'',
      offers = Some \<lparr>StoreAggregateOffer.lowPrice = 0,
        offers = Some [\<lparr>StoreOffer.availability = Some ''https://schema.org/InStock'',
          quantity = Some 3, inventoryLevel = None, seller = None\<rparr>]\<rparr>\<rparr>"

definition variant_proto :: StoreProduct where
  "variant_proto = \<lparr>name = ''__proto__'', productID = ''6'', offers = None\<rparr>"

text \<open>The two offers of the multi-seller scenario.\<close>

definition offer_seller2_InStock :: StoreOffer where
  "offer_seller2_InStock =
     \<lparr>StoreOffer.availability = Some ''https://schema.org/InStock'', quantity = Some 7,
      inventoryLevel = None, seller = Some \<lparr>identifier' = ''2''\<rparr>\<rparr>"

definition offer_seller1_OutOfStock :: StoreOffer where
  "offer_seller1_OutOfStock =
     \<lparr>StoreOffer.availability = Some ''https://schema.org/OutOfStock'', quantity = Some 0,
      inventoryLevel = None, seller = Some \<lparr>identifier' = ''1''\<rparr>\<rparr>"

text \<open>A console that records what is logged, a console whose \<^verbatim>\<open>log\<close> throws, and a
  formatting of the percentage.\<close>

definition console_log_ok :: "string \<times> Stats \<Rightarrow> console \<Rightarrow> console option" where
  "console_log_ok entry out = Some (out @ [entry])"

definition console_log_throws :: "string \<times> Stats \<Rightarrow> console \<Rightarrow> console option" where
  "console_log_throws entry out = None"

definition percent_stub :: "nat \<Rightarrow> nat \<Rightarrow> string" where
  "percent_stub a t = []"

section \<open>The specification's configuration, for comparison\<close>

text \<open>
  The specification describes an offer selector with a configured preferred seller and a
  policy for variants without offer data. The code has neither parameter. The two
  definitions below follow the specification's wording (sections 4.2 and 8, scenario C),
  not the code, and are only compared with the code.
\<close>

definition spec_select :: "string option \<Rightarrow> StoreOffer list \<Rightarrow> StoreOffer option" where
  "spec_select preferredSellerId os =
     (case os of
        [] \<Rightarrow> None
      | x # _ \<Rightarrow>
          (case preferredSellerId of
             None \<Rightarrow> Some x
           | Some sid \<Rightarrow>
               (case find (\<lambda>y. map_option identifier' (seller y) = Some sid) os of
                  Some y \<Rightarrow> Some y
                | None \<Rightarrow> Some x)))"

datatype MissingDataPolicy = Optimistic | Pessimistic

definition spec_noOffers_isAvailable :: "MissingDataPolicy \<Rightarrow> bool" where
  "spec_noOffers_isAvailable missingDataPolicy = (missingDataPolicy = Optimistic)"

section \<open>Properties of the object operations and of the loop\<close>

lemma own_js_set:
  "own (js_set m k d) = (if k = ''__proto__'' \<and> own m k = None then own m else (own m)(k \<mapsto> d))"
  by (auto simp: js_set_def)

lemma proto_js_set:
  "proto (js_set m k d) = (if k = ''__proto__'' \<and> own m k = None then Some d else proto m)"
  by (auto simp: js_set_def)

lemma foldl_own_proto_key:
  "own m ''__proto__'' = None \<Longrightarrow>
   own (foldl (\<lambda>m v. js_set m (name v) (f v)) m vs) ''__proto__'' = None"
  by (induction vs arbitrary: m) (simp_all add: own_js_set)

lemma foldl_own_other:
  "k \<notin> name ` set vs \<Longrightarrow>
   own (foldl (\<lambda>m v. js_set m (name v) (f v)) m vs) k = own m k"
  by (induction vs arbitrary: m) (simp_all add: own_js_set)

lemma foldl_proto_other:
  "''__proto__'' \<notin> name ` set vs \<Longrightarrow>
   proto (foldl (\<lambda>m v. js_set m (name v) (f v)) m vs) = proto m"
  by (induction vs arbitrary: m) (auto simp: proto_js_set)

lemma foldl_dom_own:
  "own m ''__proto__'' = None \<Longrightarrow>
   dom (own (foldl (\<lambda>m v. js_set m (name v) (f v)) m vs)) = dom (own m) \<union> (name ` set vs - {''__proto__''})"
proof (induction vs arbitrary: m)
  case Nil
  then show ?case by simp
next
  case (Cons v vs)
  have "own (js_set m (name v) (f v)) ''__proto__'' = None"
    using Cons.prems by (simp add: own_js_set)
  from Cons.IH [OF this] show ?case
    using Cons.prems by (auto simp: own_js_set split: if_splits)
qed

lemma js_get_after_set:
  assumes "own m ''__proto__'' = None" and "props d ''__proto__'' = None"
  shows "js_get props (js_set m k d) k = JSObject d"
  using assms by (simp add: js_get_def js_set_def)

lemma js_get_foldl_last:
  assumes inv: "own m ''__proto__'' = None"
    and last: "name v \<notin> name ` set post"
    and props: "props (f v) ''__proto__'' = None"
  shows "js_get props (foldl (\<lambda>m v. js_set m (name v) (f v)) m (pre @ v # post)) (name v) = JSObject (f v)"
proof -
  let ?step = "\<lambda>m v. js_set m (name v) (f v)"
  let ?m1 = "foldl ?step m pre"
  let ?m2 = "js_set ?m1 (name v) (f v)"
  let ?m3 = "foldl ?step ?m2 post"
  have i1: "own ?m1 ''__proto__'' = None"
    using inv by (rule foldl_own_proto_key)
  have i2: "own ?m2 ''__proto__'' = None"
    using i1 by (simp add: own_js_set)
  have i3: "own ?m3 ''__proto__'' = None"
    using i2 by (rule foldl_own_proto_key)
  have o3: "own ?m3 (name v) = own ?m2 (name v)"
    using last by (rule foldl_own_other)
  have "js_get props ?m3 (name v) = JSObject (f v)"
  proof (cases "name v = ''__proto__''")
    case True
    have "proto ?m3 = proto ?m2"
      using last True foldl_proto_other [of post f ?m2] by simp
    also have "\<dots> = Some (f v)"
      using i1 True by (simp add: proto_js_set)
    finally show ?thesis
      using i3 True props by (simp add: js_get_def)
  next
    case False
    then have "own ?m2 (name v) = Some (f v)"
      by (simp add: own_js_set)
    with o3 show ?thesis by (simp add: js_get_def)
  qed
  then show ?thesis by simp
qed

lemma reduceVariants_get_last:
  "name v \<notin> name ` set post \<Longrightarrow> props (f v) ''__proto__'' = None \<Longrightarrow>
   js_get props (reduceVariants f (pre @ v # post)) (name v) = JSObject (f v)"
  unfolding reduceVariants_def
  by (rule js_get_foldl_last) (simp_all add: empty_object_def)

lemma reduceVariants_dom_own:
  "dom (own (reduceVariants f vs)) = name ` set vs - {''__proto__''}"
  unfolding reduceVariants_def
  by (subst foldl_dom_own) (simp_all add: empty_object_def)

lemma fields_proto_key [simp]:
  "VariantAvailability_fields d ''__proto__'' = None"
  "VariantAvailability_lowStock_fields d1 ''__proto__'' = None"
  "VariantAvailability_preOrder_fields d2 ''__proto__'' = None"
  by (simp_all add: VariantAvailability_fields_def VariantAvailability_lowStock_fields_def
      VariantAvailability_preOrder_fields_def)

lemma firstOffer_Cons:
  "StoreProduct.offers variant = Some agg \<Longrightarrow> StoreAggregateOffer.offers agg = Some (x # rest) \<Longrightarrow>
   firstOffer variant = Some x"
  by (simp add: firstOffer_def)

lemma variantLowPrice_Some:
  "StoreProduct.offers variant = Some agg \<Longrightarrow> variantLowPrice variant = StoreAggregateOffer.lowPrice agg"
  by (simp add: variantLowPrice_def)

lemma variantAvailability_sel:
  "isAvailable (variantAvailability v) \<longleftrightarrow>
     offerAvailability (firstOffer v) = InStock \<and> 0 < offerQuantity (firstOffer v) \<and> 0 < variantLowPrice v"
  "quantity (variantAvailability v) = offerQuantity (firstOffer v)"
  "availability (variantAvailability v) = offerAvailability (firstOffer v)"
  "lowPrice (variantAvailability v) = variantLowPrice v"
  by (simp_all add: variantAvailability_def Let_def)

lemma variantAvailability_lowStock_sel:
  "isAvailable (variantAvailability_lowStock t v) \<longleftrightarrow>
     offerAvailability (firstOffer v) = InStock \<and> 0 < offerQuantity (firstOffer v) \<and> 0 < variantLowPrice v"
  "isLowStock (variantAvailability_lowStock t v) \<longleftrightarrow>
     0 < offerQuantity (firstOffer v) \<and> offerQuantity (firstOffer v) \<le> t"
  "quantity (variantAvailability_lowStock t v) = offerQuantity (firstOffer v)"
  "availability (variantAvailability_lowStock t v) = offerAvailability (firstOffer v)"
  "lowPrice (variantAvailability_lowStock t v) = variantLowPrice v"
  by (simp_all add: variantAvailability_lowStock_def Let_def)

lemma variantAvailability_preOrder_sel:
  "isAvailable (variantAvailability_preOrder t v) \<longleftrightarrow>
     (offerAvailability (firstOffer v) = InStock \<or> offerAvailability (firstOffer v) = PreOrder
        \<or> offerAvailability (firstOffer v) = BackOrder) \<and> 0 < variantLowPrice v"
  "isPreOrder (variantAvailability_preOrder t v) \<longleftrightarrow> offerAvailability (firstOffer v) = PreOrder"
  "isBackOrder (variantAvailability_preOrder t v) \<longleftrightarrow> offerAvailability (firstOffer v) = BackOrder"
  "isLowStock (variantAvailability_preOrder t v) \<longleftrightarrow>
     0 < offerQuantity (firstOffer v) \<and> offerQuantity (firstOffer v) \<le> t"
  "quantity (variantAvailability_preOrder t v) = offerQuantity (firstOffer v)"
  "availability (variantAvailability_preOrder t v) = offerAvailability (firstOffer v)"
  "lowPrice (variantAvailability_preOrder t v) = variantLowPrice v"
  by (simp_all add: variantAvailability_preOrder_def Let_def)

lemma get_createVariantAvailabilityMap:
  "name variant \<notin> name ` set post \<Longrightarrow>
   js_get VariantAvailability_fields
     (createVariantAvailabilityMap (Some (pre @ variant # post))) (name variant)
   = JSObject (variantAvailability variant)"
  by (simp add: createVariantAvailabilityMap_def reduceVariants_get_last)

lemma get_createVariantAvailabilityMap_lowStock:
  "name variant \<notin> name ` set post \<Longrightarrow>
   js_get VariantAvailability_lowStock_fields
     (createVariantAvailabilityMap_lowStock (Some (pre @ variant # post)) threshold) (name variant)
   = JSObject (variantAvailability_lowStock
       (case threshold of None \<Rightarrow> LOW_STOCK_THRESHOLD | Some t \<Rightarrow> t) variant)"
  by (simp add: createVariantAvailabilityMap_lowStock_def reduceVariants_get_last)

lemma get_createVariantAvailabilityMap_preOrder:
  "name variant \<notin> name ` set post \<Longrightarrow>
   js_get VariantAvailability_preOrder_fields
     (createVariantAvailabilityMap_preOrder (Some (pre @ variant # post)) threshold) (name variant)
   = JSObject (variantAvailability_preOrder
       (case threshold of None \<Rightarrow> LOW_STOCK_THRESHOLD | Some t \<Rightarrow> t) variant)"
  by (simp add: createVariantAvailabilityMap_preOrder_def reduceVariants_get_last)

lemma get_createVariantAvailabilityMap_multiSeller:
  "name variant \<notin> name ` set post \<Longrightarrow>
   js_get VariantAvailability_fields
     (createVariantAvailabilityMap_multiSeller (Some (pre @ variant # post))) (name variant)
   = JSObject (variantAvailability_multiSeller variant)"
  by (simp add: createVariantAvailabilityMap_multiSeller_def reduceVariants_get_last)

lemma variantAvailability_multiSeller_sel:
  "isAvailable (variantAvailability_multiSeller v) \<longleftrightarrow>
     offerAvailability (offer_multiSeller v) = InStock
     \<and> 0 < offerQuantity_multiSeller (offer_multiSeller v) \<and> 0 < variantLowPrice v"
  "quantity (variantAvailability_multiSeller v) = offerQuantity_multiSeller (offer_multiSeller v)"
  "availability (variantAvailability_multiSeller v) = offerAvailability (offer_multiSeller v)"
  "lowPrice (variantAvailability_multiSeller v) = variantLowPrice v"
  by (simp_all add: variantAvailability_multiSeller_def Let_def)

lemma firstOffer_None:
  assumes "StoreProduct.offers variant = None
     \<or> (\<exists>agg. StoreProduct.offers variant = Some agg
          \<and> (StoreAggregateOffer.offers agg = None \<or> StoreAggregateOffer.offers agg = Some []))"
  shows "firstOffer variant = None" "offer_multiSeller variant = None"
  using assms by (auto simp: firstOffer_def offer_multiSeller_def selectOffer_def)

lemma foldl_objects:
  "ran (own (foldl (\<lambda>m v. js_set m (name v) (f v)) m vs)) \<union>
     set_option (proto (foldl (\<lambda>m v. js_set m (name v) (f v)) m vs))
   \<subseteq> ran (own m) \<union> set_option (proto m) \<union> f ` set vs"
proof (induction vs arbitrary: m)
  case Nil
  show ?case by simp
next
  case (Cons v vs)
  have step: "ran (own (js_set m (name v) (f v))) \<union> set_option (proto (js_set m (name v) (f v)))
      \<subseteq> ran (own m) \<union> set_option (proto m) \<union> {f v}"
    by (auto simp: js_set_def ran_def split: if_splits)
  from Cons.IH [of "js_set m (name v) (f v)"] step show ?case
    by (simp add: subset_iff) blast
qed

lemma reduceVariants_objects:
  assumes get: "js_get props (reduceVariants f vs) k = JSObject d"
    and prim: "\<And>p k d. props p k \<noteq> Some (JSObject d)"
  shows "d \<in> f ` set vs"
proof -
  let ?m = "reduceVariants f vs"
  have sub: "ran (own ?m) \<union> set_option (proto ?m) \<subseteq> f ` set vs"
    using foldl_objects [of f empty_object vs]
    by (simp add: reduceVariants_def empty_object_def)
  have "d \<in> ran (own ?m) \<union> set_option (proto ?m)"
    using get prim
    by (auto simp: js_get_def ran_def split: option.splits if_splits)
  with sub show ?thesis by blast
qed

lemma fields_primitive:
  "VariantAvailability_fields p k \<noteq> Some (JSObject d)"
  "VariantAvailability_lowStock_fields p1 k \<noteq> Some (JSObject d)"
  "VariantAvailability_preOrder_fields p2 k \<noteq> Some (JSObject d)"
  by (simp_all add: VariantAvailability_fields_def VariantAvailability_lowStock_fields_def
      VariantAvailability_preOrder_fields_def)

lemma js_get_empty_object:
  "js_get props empty_object k \<noteq> JSObject d"
  by (simp add: js_get_def empty_object_def)

lemma entry_createVariantAvailabilityMap:
  assumes "js_get VariantAvailability_fields (createVariantAvailabilityMap avp) k = JSObject d"
  shows "\<exists>v. d = variantAvailability v"
proof (cases avp)
  case None
  with assms show ?thesis
    by (simp add: createVariantAvailabilityMap_def js_get_empty_object)
next
  case (Some vs)
  with assms have "d \<in> variantAvailability ` set vs"
    by (intro reduceVariants_objects [where props = VariantAvailability_fields and k = k])
      (simp_all add: createVariantAvailabilityMap_def fields_primitive)
  then show ?thesis by blast
qed

lemma entry_createVariantAvailabilityMap_lowStock:
  assumes "js_get VariantAvailability_lowStock_fields
     (createVariantAvailabilityMap_lowStock avp threshold) k = JSObject d"
  shows "\<exists>v. d = variantAvailability_lowStock
     (case threshold of None \<Rightarrow> LOW_STOCK_THRESHOLD | Some t \<Rightarrow> t) v"
proof (cases avp)
  case None
  with assms show ?thesis
    by (simp add: createVariantAvailabilityMap_lowStock_def js_get_empty_object)
next
  case (Some vs)
  let ?t = "case threshold of None \<Rightarrow> LOW_STOCK_THRESHOLD | Some t \<Rightarrow> t"
  from Some assms have "d \<in> variantAvailability_lowStock ?t ` set vs"
    by (intro reduceVariants_objects [where props = VariantAvailability_lowStock_fields and k = k])
      (simp_all add: createVariantAvailabilityMap_lowStock_def fields_primitive)
  then show ?thesis by blast
qed

lemma entry_createVariantAvailabilityMap_preOrder:
  assumes "js_get VariantAvailability_preOrder_fields
     (createVariantAvailabilityMap_preOrder avp threshold) k = JSObject d"
  shows "\<exists>v. d = variantAvailability_preOrder
     (case threshold of None \<Rightarrow> LOW_STOCK_THRESHOLD | Some t \<Rightarrow> t) v"
proof (cases avp)
  case None
  with assms show ?thesis
    by (simp add: createVariantAvailabilityMap_preOrder_def js_get_empty_object)
next
  case (Some vs)
  let ?t = "case threshold of None \<Rightarrow> LOW_STOCK_THRESHOLD | Some t \<Rightarrow> t"
  from Some assms have "d \<in> variantAvailability_preOrder ?t ` set vs"
    by (intro reduceVariants_objects [where props = VariantAvailability_preOrder_fields and k = k])
      (simp_all add: createVariantAvailabilityMap_preOrder_def fields_primitive)
  then show ?thesis by blast
qed

lemma createVariantAvailabilityMap_keys:
  "dom (own (createVariantAvailabilityMap (Some vs))) = name ` set vs - {''__proto__''}"
  by (simp add: createVariantAvailabilityMap_def reduceVariants_dom_own)

lemma isVariantDisabled_absent:
  "own m k = None \<Longrightarrow> proto m = None \<Longrightarrow> k \<notin> set Object_prototype_keys \<Longrightarrow>
   \<not> isVariantDisabled props k m"
  by (simp add: isVariantDisabled_def js_get_def)

section \<open>In-stock variants\<close>

text \<open>
  Claim C1. Take a variant whose first offer has the status InStock and a quantity \<open>q\<close>
  above zero (its \<open>quantity\<close> field, or the \<open>value\<close> of its \<open>inventoryLevel\<close> when it has no
  \<open>quantity\<close>), and whose aggregate offer has a low price above zero. When no later
  variant of the array has the same name, reading the map at the variant's name gives a
  decision with \<open>isAvailable\<close> true and the quantity \<open>q\<close>, in every revision of the
  function. In the revision with the low-stock flag, \<open>isLowStock\<close> is true exactly when
  \<open>q\<close> is at or below the threshold passed (10 when none is passed); in the revision with
  pre-order support, \<open>isPreOrder\<close> and \<open>isBackOrder\<close> are false as well.
\<close>

theorem in_stock_decision:
  assumes last: "name variant \<notin> name ` set post"
    and agg: "StoreProduct.offers variant = Some agg"
    and first: "StoreAggregateOffer.offers agg = Some (x # rest)"
    and status: "StoreOffer.availability x = Some ''https://schema.org/InStock''"
    and qty: "StoreOffer.quantity x = Some q
       \<or> (StoreOffer.quantity x = None \<and> map_option value' (inventoryLevel x) = Some q)"
    and pos: "0 < q"
    and price: "0 < StoreAggregateOffer.lowPrice agg"
  shows "(\<exists>d. js_get VariantAvailability_fields
            (createVariantAvailabilityMap (Some (pre @ variant # post))) (name variant) = JSObject d
          \<and> isAvailable d \<and> quantity d = q) \<and>
         (\<exists>d. js_get VariantAvailability_lowStock_fields
            (createVariantAvailabilityMap_lowStock (Some (pre @ variant # post)) threshold)
            (name variant) = JSObject d
          \<and> isAvailable d \<and> quantity d = q
          \<and> (isLowStock d \<longleftrightarrow> q \<le> (case threshold of None \<Rightarrow> 10 | Some t \<Rightarrow> t))) \<and>
         (\<exists>d. js_get VariantAvailability_preOrder_fields
            (createVariantAvailabilityMap_preOrder (Some (pre @ variant # post)) threshold)
            (name variant) = JSObject d
          \<and> isAvailable d \<and> \<not> isPreOrder d \<and> \<not> isBackOrder d \<and> quantity d = q
          \<and> (isLowStock d \<longleftrightarrow> q \<le> (case threshold of None \<Rightarrow> 10 | Some t \<Rightarrow> t)))"
proof -
  have fo: "firstOffer variant = Some x"
    using agg first by (rule firstOffer_Cons)
  have av: "offerAvailability (Some x) = InStock"
    using status by (simp add: offerAvailability_def InStock_def)
  have oq: "offerQuantity (Some x) = q"
    using qty by (auto simp: offerQuantity_def split: option.splits)
  have lp: "variantLowPrice variant = StoreAggregateOffer.lowPrice agg"
    using agg by (rule variantLowPrice_Some)
  have ne: "InStock \<noteq> PreOrder" "InStock \<noteq> BackOrder"
    by (simp_all add: InStock_def PreOrder_def BackOrder_def)
  have thr: "(case threshold of None \<Rightarrow> LOW_STOCK_THRESHOLD | Some t \<Rightarrow> t)
      = (case threshold of None \<Rightarrow> 10 | Some t \<Rightarrow> t)"
    by (simp add: LOW_STOCK_THRESHOLD_def split: option.split)
  note get = get_createVariantAvailabilityMap [OF last]
    get_createVariantAvailabilityMap_lowStock [OF last]
    get_createVariantAvailabilityMap_preOrder [OF last]
  show ?thesis
    using fo av oq lp pos price ne
    by (simp add: get thr variantAvailability_sel variantAvailability_lowStock_sel
        variantAvailability_preOrder_sel)
qed

theorem in_stock_decision_witness:
  "(\<exists>d. js_get VariantAvailability_fields
       (createVariantAvailabilityMap (Some [variant_Yellow])) ''Yellow'' = JSObject d
     \<and> isAvailable d \<and> quantity d = 5) \<and>
   (\<exists>d. js_get VariantAvailability_lowStock_fields
       (createVariantAvailabilityMap_lowStock (Some [variant_Yellow]) (Some 10)) ''Yellow'' = JSObject d
     \<and> isAvailable d \<and> quantity d = 5 \<and> isLowStock d) \<and>
   (\<exists>d. js_get VariantAvailability_preOrder_fields
       (createVariantAvailabilityMap_preOrder (Some [variant_Yellow]) (Some 10)) ''Yellow'' = JSObject d
     \<and> isAvailable d \<and> \<not> isPreOrder d \<and> \<not> isBackOrder d \<and> quantity d = 5 \<and> isLowStock d)"
proof -
  let ?x = "\<lparr>StoreOffer.availability = Some ''https://schema.org/InStock'',
          quantity = Some 5, inventoryLevel = None, seller = None\<rparr>"
  let ?agg = "\<lparr>StoreAggregateOffer.lowPrice = 50, offers = Some [?x]\<rparr>"
  have h1: "name variant_Yellow \<notin> name ` set []" by simp
  have h2: "StoreProduct.offers variant_Yellow = Some ?agg" by (simp add: variant_Yellow_def)
  have h3: "StoreAggregateOffer.offers ?agg = Some (?x # [])" by simp
  have h4: "StoreOffer.availability ?x = Some ''https://schema.org/InStock''" by simp
  have h5: "StoreOffer.quantity ?x = Some 5
       \<or> (StoreOffer.quantity ?x = None \<and> map_option value' (inventoryLevel ?x) = Some 5)"
    by simp
  have h6: "(0::number) < 5" by simp
  have h7: "0 < StoreAggregateOffer.lowPrice ?agg" by simp
  have n: "name variant_Yellow = ''Yellow''" by (simp add: variant_Yellow_def)
  from in_stock_decision [OF h1 h2 h3 h4 h5 h6 h7, of "[]" "Some 10"]
  show ?thesis unfolding n by simp
qed

section \<open>Zero price\<close>

text \<open>
  Claim C2. Take a variant whose aggregate offer has the low price zero. Whatever the
  status and the quantity of its offers, the decision read from the map at the variant's
  name has \<open>isAvailable\<close> false, in every revision of the function. (As in C1, the
  variant is the last of its name in the array: a later variant of the same name
  overwrites the entry.)
\<close>

theorem zero_price_unavailable:
  assumes last: "name variant \<notin> name ` set post"
    and agg: "StoreProduct.offers variant = Some agg"
    and price: "StoreAggregateOffer.lowPrice agg = 0"
  shows "(\<exists>d. js_get VariantAvailability_fields
            (createVariantAvailabilityMap (Some (pre @ variant # post))) (name variant) = JSObject d
          \<and> \<not> isAvailable d) \<and>
         (\<exists>d. js_get VariantAvailability_lowStock_fields
            (createVariantAvailabilityMap_lowStock (Some (pre @ variant # post)) threshold)
            (name variant) = JSObject d
          \<and> \<not> isAvailable d) \<and>
         (\<exists>d. js_get VariantAvailability_preOrder_fields
            (createVariantAvailabilityMap_preOrder (Some (pre @ variant # post)) threshold)
            (name variant) = JSObject d
          \<and> \<not> isAvailable d) \<and>
         (\<exists>d. js_get VariantAvailability_fields
            (createVariantAvailabilityMap_multiSeller (Some (pre @ variant # post)))
            (name variant) = JSObject d
          \<and> \<not> isAvailable d)"
proof -
  have lp: "variantLowPrice variant = 0"
    using agg price by (simp add: variantLowPrice_Some)
  note get = get_createVariantAvailabilityMap [OF last]
    get_createVariantAvailabilityMap_lowStock [OF last]
    get_createVariantAvailabilityMap_preOrder [OF last]
    get_createVariantAvailabilityMap_multiSeller [OF last]
  show ?thesis
    using lp
    by (simp add: get variantAvailability_sel variantAvailability_lowStock_sel
        variantAvailability_preOrder_sel variantAvailability_multiSeller_sel)
qed

theorem zero_price_unavailable_witness:
  "(\<exists>d. js_get VariantAvailability_fields
       (createVariantAvailabilityMap (Some [variant_Red, variant_Blue])) ''Blue'' = JSObject d
     \<and> \<not> isAvailable d) \<and>
   (\<exists>d. js_get VariantAvailability_lowStock_fields
       (createVariantAvailabilityMap_lowStock (Some [variant_Red, variant_Blue]) None) ''Blue''
       = JSObject d
     \<and> \<not> isAvailable d) \<and>
   (\<exists>d. js_get VariantAvailability_preOrder_fields
       (createVariantAvailabilityMap_preOrder (Some [variant_Red, variant_Blue]) None) ''Blue''
       = JSObject d
     \<and> \<not> isAvailable d) \<and>
   (\<exists>d. js_get VariantAvailability_fields
       (createVariantAvailabilityMap_multiSeller (Some [variant_Red, variant_Blue])) ''Blue''
       = JSObject d
     \<and> \<not> isAvailable d)"
proof -
  let ?agg = "\<lparr>StoreAggregateOffer.lowPrice = 0,
        offers = Some [\<lparr>StoreOffer.availability = Some ''https://schema.org/OutOfStock'',
          quantity = Some 0, inventoryLevel = None, seller = None\<rparr>]\<rparr>"
  have h1: "name variant_Blue \<notin> name ` set []" by simp
  have h2: "StoreProduct.offers variant_Blue = Some ?agg" by (simp add: variant_Blue_def)
  have h3: "StoreAggregateOffer.lowPrice ?agg = 0" by simp
  have n: "name variant_Blue = ''Blue''" by (simp add: variant_Blue_def)
  from zero_price_unavailable [OF h1 h2 h3, of "[variant_Red]" None]
  show ?thesis unfolding n by simp
qed

section \<open>The offer that stands for a variant\<close>

text \<open>
  Claim C3, as amended. The code has no preferred-seller parameter. On a non-empty array
  of offers, the multi-seller selection returns the first offer whose seller identifier
  is \<^verbatim>\<open>"1"\<close> when there is one, and the first offer of the array otherwise.
\<close>

theorem selectOffer_seller_one_or_first:
  assumes "os \<noteq> []"
  shows "\<exists>i<length os. selectOffer os = Some (os ! i) \<and>
           (if \<exists>j<length os. isSellerOne (os ! j)
            then isSellerOne (os ! i) \<and> (\<forall>j<i. \<not> isSellerOne (os ! j))
            else i = 0)"
proof (cases "find isSellerOne os")
  case None
  then have no: "\<not> (\<exists>j<length os. isSellerOne (os ! j))"
    by (auto simp: find_None_iff)
  from assms obtain x xs where os: "os = x # xs"
    by (cases os) auto
  have "selectOffer os = Some (os ! 0)"
    using None os by (simp add: selectOffer_def)
  with no assms show ?thesis
    by (intro exI [of _ 0]) simp
next
  case (Some x)
  then obtain i where i: "i < length os" "isSellerOne (os ! i)" "x = os ! i"
    "\<forall>j<i. \<not> isSellerOne (os ! j)"
    by (auto simp: find_Some_iff)
  have "selectOffer os = Some (os ! i)"
    using Some i(3) by (simp add: selectOffer_def)
  with i show ?thesis
    by (intro exI [of _ i]) auto
qed

text \<open>On the offers of sellers \<^verbatim>\<open>"2"\<close> (in stock) and \<^verbatim>\<open>"1"\<close> (out of stock), in this
  order, the selected offer is the one of seller \<^verbatim>\<open>"1"\<close>.\<close>

theorem selectOffer_seller_one_or_first_witness:
  "selectOffer [offer_seller2_InStock, offer_seller1_OutOfStock] = Some offer_seller1_OutOfStock"
proof -
  let ?os = "[offer_seller2_InStock, offer_seller1_OutOfStock]"
  have ne: "?os \<noteq> []" by simp
  have one: "\<not> isSellerOne offer_seller2_InStock" "isSellerOne offer_seller1_OutOfStock"
    by (simp_all add: isSellerOne_def offer_seller2_InStock_def offer_seller1_OutOfStock_def)
  from selectOffer_seller_one_or_first [OF ne]
  obtain i where i: "i < length ?os" "selectOffer ?os = Some (?os ! i)"
    "if \<exists>j<length ?os. isSellerOne (?os ! j)
     then isSellerOne (?os ! i) \<and> (\<forall>j<i. \<not> isSellerOne (?os ! j)) else i = 0"
    by blast
  have ex: "\<exists>j<length ?os. isSellerOne (?os ! j)"
    using one by (intro exI [of _ 1]) simp
  have c: "isSellerOne (?os ! i)"
    using i(3) unfolding if_P [OF ex] by (rule conjunct1)
  have "i \<noteq> 0"
  proof
    assume "i = 0"
    with c have "isSellerOne offer_seller2_InStock" by simp
    with one(1) show False by simp
  qed
  with i(1) have "i = 1" by simp
  with i(2) show ?thesis by simp
qed

text \<open>The claim as stated fails: with the preferred seller \<^verbatim>\<open>"2"\<close> the specification's
  selector returns the offer of seller \<^verbatim>\<open>"2"\<close> and the code the offer of seller \<^verbatim>\<open>"1"\<close>;
  with no preferred seller the specification's selector returns the first offer, and
  the code again the offer of seller \<^verbatim>\<open>"1"\<close>.\<close>

theorem selectOffer_ignores_preference_counterexample:
  "selectOffer [offer_seller1_OutOfStock, offer_seller2_InStock]
     \<noteq> spec_select (Some ''2'') [offer_seller1_OutOfStock, offer_seller2_InStock]
   \<and> selectOffer [offer_seller2_InStock, offer_seller1_OutOfStock]
     \<noteq> spec_select None [offer_seller2_InStock, offer_seller1_OutOfStock]"
  by (simp add: selectOffer_def spec_select_def isSellerOne_def
      offer_seller1_OutOfStock_def offer_seller2_InStock_def)

section \<open>Variants without offers\<close>

text \<open>
  Claim C4, as amended. A variant whose offer list is absent or empty has
  \<open>isAvailable\<close> false in the map, in every revision of the function: the code has no
  policy parameter, and behaves as the specification's pessimistic policy.
\<close>

theorem no_offers_unavailable:
  assumes last: "name variant \<notin> name ` set post"
    and none: "StoreProduct.offers variant = None
     \<or> (\<exists>agg. StoreProduct.offers variant = Some agg
          \<and> (StoreAggregateOffer.offers agg = None \<or> StoreAggregateOffer.offers agg = Some []))"
  shows "(\<exists>d. js_get VariantAvailability_fields
            (createVariantAvailabilityMap (Some (pre @ variant # post))) (name variant) = JSObject d
          \<and> \<not> isAvailable d) \<and>
         (\<exists>d. js_get VariantAvailability_lowStock_fields
            (createVariantAvailabilityMap_lowStock (Some (pre @ variant # post)) threshold)
            (name variant) = JSObject d
          \<and> \<not> isAvailable d) \<and>
         (\<exists>d. js_get VariantAvailability_preOrder_fields
            (createVariantAvailabilityMap_preOrder (Some (pre @ variant # post)) threshold)
            (name variant) = JSObject d
          \<and> \<not> isAvailable d) \<and>
         (\<exists>d. js_get VariantAvailability_fields
            (createVariantAvailabilityMap_multiSeller (Some (pre @ variant # post)))
            (name variant) = JSObject d
          \<and> \<not> isAvailable d)"
proof -
  note fo = firstOffer_None [OF none]
  have av: "offerAvailability None = []"
    by (simp add: offerAvailability_def)
  have ne: "[] \<noteq> InStock" "[] \<noteq> PreOrder" "[] \<noteq> BackOrder"
    by (simp_all add: InStock_def PreOrder_def BackOrder_def)
  note get = get_createVariantAvailabilityMap [OF last]
    get_createVariantAvailabilityMap_lowStock [OF last]
    get_createVariantAvailabilityMap_preOrder [OF last]
    get_createVariantAvailabilityMap_multiSeller [OF last]
  show ?thesis
    using ne
    by (simp add: get fo av variantAvailability_sel variantAvailability_lowStock_sel
        variantAvailability_preOrder_sel variantAvailability_multiSeller_sel)
qed

theorem no_offers_unavailable_witness:
  "(\<exists>d. js_get VariantAvailability_fields
       (createVariantAvailabilityMap (Some [variant_Green])) ''Green'' = JSObject d
     \<and> \<not> isAvailable d) \<and>
   (\<exists>d. js_get VariantAvailability_lowStock_fields
       (createVariantAvailabilityMap_lowStock (Some [variant_Green]) None) ''Green'' = JSObject d
     \<and> \<not> isAvailable d) \<and>
   (\<exists>d. js_get VariantAvailability_preOrder_fields
       (createVariantAvailabilityMap_preOrder (Some [variant_Green]) None) ''Green'' = JSObject d
     \<and> \<not> isAvailable d) \<and>
   (\<exists>d. js_get VariantAvailability_fields
       (createVariantAvailabilityMap_multiSeller (Some [variant_Green])) ''Green'' = JSObject d
     \<and> \<not> isAvailable d)"
proof -
  have h1: "name variant_Green \<notin> name ` set []" by simp
  have h2: "StoreProduct.offers variant_Green = None
     \<or> (\<exists>agg. StoreProduct.offers variant_Green = Some agg
          \<and> (StoreAggregateOffer.offers agg = None \<or> StoreAggregateOffer.offers agg = Some []))"
    by (simp add: variant_Green_def)
  have n: "name variant_Green = ''Green''" by (simp add: variant_Green_def)
  from no_offers_unavailable [OF h1 h2, of "[]" None]
  show ?thesis unfolding n by simp
qed

text \<open>The claim as stated fails under the optimistic policy: the unit test's variant
  without offers is unavailable in the map.\<close>

theorem no_offers_policy_counterexample:
  "js_get VariantAvailability_fields (createVariantAvailabilityMap (Some [variant_Green])) ''Green''
     = JSObject (variantAvailability variant_Green)
   \<and> isAvailable (variantAvailability variant_Green) \<noteq> spec_noOffers_isAvailable Optimistic"
proof -
  have "name variant_Green \<notin> name ` set []" by simp
  from get_createVariantAvailabilityMap [OF this, of "[]"]
  show ?thesis
    by (simp add: variant_Green_def variantAvailability_def firstOffer_def offerAvailability_def
        offerQuantity_def variantLowPrice_def InStock_def spec_noOffers_isAvailable_def)
qed

section \<open>Low stock and availability\<close>

text \<open>
  Claim C5, as amended. In every decision of the map, \<open>isLowStock\<close> is true exactly when
  the recorded quantity is above zero and at or below the threshold passed (10 when
  none is passed). A decision with \<open>isLowStock\<close> true has \<open>isAvailable\<close> true when, in
  addition, its low price is above zero and its status is InStock (in the pre-order
  revision: InStock, PreOrder or BackOrder).
\<close>

theorem low_stock_available_when_sellable:
  "(js_get VariantAvailability_lowStock_fields
      (createVariantAvailabilityMap_lowStock allVariantProducts threshold) k = JSObject d
    \<longrightarrow> (isLowStock d \<longleftrightarrow>
          0 < quantity d \<and> quantity d \<le> (case threshold of None \<Rightarrow> 10 | Some t \<Rightarrow> t))
        \<and> (isLowStock d \<and> availability d = ''https://schema.org/InStock'' \<and> 0 < lowPrice d
             \<longrightarrow> isAvailable d)) \<and>
   (js_get VariantAvailability_preOrder_fields
      (createVariantAvailabilityMap_preOrder allVariantProducts threshold) k = JSObject e
    \<longrightarrow> (isLowStock e \<longleftrightarrow>
          0 < quantity e \<and> quantity e \<le> (case threshold of None \<Rightarrow> 10 | Some t \<Rightarrow> t))
        \<and> (isLowStock e
             \<and> (availability e = ''https://schema.org/InStock''
                 \<or> availability e = ''https://schema.org/PreOrder''
                 \<or> availability e = ''https://schema.org/BackOrder'')
             \<and> 0 < lowPrice e \<longrightarrow> isAvailable e))"
proof -
  let ?t = "case threshold of None \<Rightarrow> 10 | Some t \<Rightarrow> t"
  have thr: "(case threshold of None \<Rightarrow> LOW_STOCK_THRESHOLD | Some t \<Rightarrow> t) = ?t"
    by (simp add: LOW_STOCK_THRESHOLD_def split: option.split)
  have ls: "(isLowStock d \<longleftrightarrow> 0 < quantity d \<and> quantity d \<le> ?t)
        \<and> (isLowStock d \<and> availability d = ''https://schema.org/InStock'' \<and> 0 < lowPrice d
             \<longrightarrow> isAvailable d)"
    if "js_get VariantAvailability_lowStock_fields
      (createVariantAvailabilityMap_lowStock allVariantProducts threshold) k = JSObject d"
  proof -
    from entry_createVariantAvailabilityMap_lowStock [OF that]
    obtain v where d: "d = variantAvailability_lowStock ?t v"
      unfolding thr by blast
    show ?thesis
      by (simp add: d variantAvailability_lowStock_sel InStock_def)
  qed
  have po: "(isLowStock e \<longleftrightarrow> 0 < quantity e \<and> quantity e \<le> ?t)
        \<and> (isLowStock e
             \<and> (availability e = ''https://schema.org/InStock''
                 \<or> availability e = ''https://schema.org/PreOrder''
                 \<or> availability e = ''https://schema.org/BackOrder'')
             \<and> 0 < lowPrice e \<longrightarrow> isAvailable e)"
    if "js_get VariantAvailability_preOrder_fields
      (createVariantAvailabilityMap_preOrder allVariantProducts threshold) k = JSObject e"
  proof -
    from entry_createVariantAvailabilityMap_preOrder [OF that]
    obtain v where e: "e = variantAvailability_preOrder ?t v"
      unfolding thr by blast
    show ?thesis
      by (simp add: e variantAvailability_preOrder_sel InStock_def PreOrder_def BackOrder_def)
  qed
  from ls po show ?thesis by blast
qed

theorem low_stock_available_when_sellable_witness:
  "js_get VariantAvailability_lowStock_fields
     (createVariantAvailabilityMap_lowStock (Some [variant_Yellow]) (Some 10)) ''Yellow''
     = JSObject (variantAvailability_lowStock 10 variant_Yellow)
   \<and> isLowStock (variantAvailability_lowStock 10 variant_Yellow)
   \<and> availability (variantAvailability_lowStock 10 variant_Yellow) = ''https://schema.org/InStock''
   \<and> 0 < lowPrice (variantAvailability_lowStock 10 variant_Yellow)
   \<and> 0 < quantity (variantAvailability_lowStock 10 variant_Yellow)
   \<and> quantity (variantAvailability_lowStock 10 variant_Yellow) \<le> 10
   \<and> isAvailable (variantAvailability_lowStock 10 variant_Yellow)"
proof -
  let ?d = "variantAvailability_lowStock 10 variant_Yellow"
  have "name variant_Yellow \<notin> name ` set []" by simp
  from get_createVariantAvailabilityMap_lowStock [OF this, of "[]" "Some 10"]
  have g: "js_get VariantAvailability_lowStock_fields
     (createVariantAvailabilityMap_lowStock (Some [variant_Yellow]) (Some 10)) ''Yellow''
     = JSObject ?d"
    by (simp add: variant_Yellow_def)
  have l: "isLowStock ?d"
    by (simp add: variantAvailability_lowStock_sel variant_Yellow_def firstOffer_def
        offerQuantity_def)
  have a: "availability ?d = ''https://schema.org/InStock''"
    by (simp add: variantAvailability_lowStock_sel variant_Yellow_def firstOffer_def
        offerAvailability_def)
  have p: "0 < lowPrice ?d"
    by (simp add: variantAvailability_lowStock_sel variant_Yellow_def variantLowPrice_def)
  from low_stock_available_when_sellable
    [of "Some [variant_Yellow]" "Some 10" "''Yellow''" ?d]
    g l a p
  show ?thesis by simp
qed

text \<open>The claim as stated fails: a variant in stock with three items and the price zero
  is marked low stock and unavailable.\<close>

theorem low_stock_unavailable_counterexample:
  "js_get VariantAvailability_lowStock_fields
     (createVariantAvailabilityMap_lowStock (Some [variant_unpriced]) (Some 10)) ''Grey''
   = JSObject (variantAvailability_lowStock 10 variant_unpriced)
   \<and> isLowStock (variantAvailability_lowStock 10 variant_unpriced)
   \<and> \<not> isAvailable (variantAvailability_lowStock 10 variant_unpriced)"
proof -
  have "name variant_unpriced \<notin> name ` set []" by simp
  from get_createVariantAvailabilityMap_lowStock [OF this, of "[]" "Some 10"]
  show ?thesis
    by (simp add: variant_unpriced_def variantAvailability_lowStock_sel firstOffer_def
        offerQuantity_def variantLowPrice_def)
qed

section \<open>The keys of the map\<close>

text \<open>
  Claim C6. The claim asks for one entry per variant name of the input and for no other
  entry. The code stores a variant whose name is \<^verbatim>\<open>__proto__\<close> as the prototype of the
  map: the map then has no own property at all, and reading it at \<^verbatim>\<open>quantity\<close>, a key
  that the input does not contain, gives the number zero.
\<close>

theorem proto_name_has_no_entry:
  "dom (own (createVariantAvailabilityMap (Some [variant_proto]))) = {}
   \<and> js_get VariantAvailability_fields
       (createVariantAvailabilityMap (Some [variant_proto])) ''quantity'' = JSNumber 0"
  by (simp add: createVariantAvailabilityMap_def reduceVariants_def js_set_def js_get_def
      empty_object_def variant_proto_def VariantAvailability_fields_def
      variantAvailability_sel firstOffer_def offerQuantity_def)

section \<open>Determinism and diagnostics\<close>

text \<open>
  Claim C7, as amended. The monitored revision returns the map of
  \<^verbatim>\<open>createVariantAvailabilityMap\<close> on the same array, with the console unchanged, when
  the array is absent or \<open>NODE_ENV\<close> is read and is not \<^verbatim>\<open>development\<close>. In development
  it returns that map when \<^verbatim>\<open>console.log\<close> accepts the counts, and throws, returning no
  map, when \<^verbatim>\<open>console.log\<close> throws; it throws as well when an array is given and the
  read of \<open>NODE_ENV\<close> throws. Any two calls on the same array that return, under whatever
  environment, console and formatting, return the same map.
\<close>

theorem monitoring_returns_same_map:
  "(allVariantProducts = None \<or> (\<exists>e. NODE_ENV = Some e \<and> e \<noteq> Some ''development'')
      \<longrightarrow> createVariantAvailabilityMap_monitored percent NODE_ENV console_log out allVariantProducts
          = Inr (createVariantAvailabilityMap allVariantProducts, out)) \<and>
   (allVariantProducts = Some vs \<and> NODE_ENV = Some (Some ''development'')
      \<longrightarrow> createVariantAvailabilityMap_monitored percent NODE_ENV console_log out allVariantProducts
          = (case console_log (''Variant Availability Stats:'', availabilityStats percent vs) out of
               None \<Rightarrow> Inl ConsoleError
             | Some out' \<Rightarrow> Inr (createVariantAvailabilityMap allVariantProducts, out'))) \<and>
   (allVariantProducts = Some vs \<and> NODE_ENV = None
      \<longrightarrow> createVariantAvailabilityMap_monitored percent NODE_ENV console_log out allVariantProducts
          = Inl ReferenceError) \<and>
   (createVariantAvailabilityMap_monitored percent NODE_ENV console_log out allVariantProducts
      = Inr (m, out1)
    \<and> createVariantAvailabilityMap_monitored percent' NODE_ENV' console_log' out' allVariantProducts
      = Inr (m', out2)
      \<longrightarrow> m = m' \<and> m = createVariantAvailabilityMap allVariantProducts)"
  by (auto simp: createVariantAvailabilityMap_monitored_def createVariantAvailabilityMap_def
      Let_def split: option.splits if_splits)

theorem monitoring_returns_same_map_witness:
  "createVariantAvailabilityMap_monitored percent_stub (Some (Some ''production''))
      console_log_throws [] (Some [variant_Red])
     = Inr (createVariantAvailabilityMap (Some [variant_Red]), [])
   \<and> createVariantAvailabilityMap_monitored percent_stub (Some (Some ''development''))
      console_log_ok [] (Some [variant_Red])
     = Inr (createVariantAvailabilityMap (Some [variant_Red]),
            [(''Variant Availability Stats:'',
              \<lparr>total = 1, withOffers = 1, withAvailability = 1, coverage = []\<rparr>)])"
proof -
  have s: "availabilityStats percent_stub [variant_Red]
      = \<lparr>total = 1, withOffers = 1, withAvailability = 1, coverage = []\<rparr>"
    by (simp add: availabilityStats_def percent_stub_def variant_Red_def firstOffer_def
        offerAvailability_def)
  have e: "\<exists>e. Some (Some ''production'') = Some e \<and> e \<noteq> Some ''development''"
    by simp
  from monitoring_returns_same_map
    [of "Some [variant_Red]" "Some (Some ''production'')" percent_stub console_log_throws "[]"]
    e
  have a: "createVariantAvailabilityMap_monitored percent_stub (Some (Some ''production''))
      console_log_throws [] (Some [variant_Red])
     = Inr (createVariantAvailabilityMap (Some [variant_Red]), [])"
    by blast
  from monitoring_returns_same_map
    [of "Some [variant_Red]" "Some (Some ''development'')" percent_stub console_log_ok "[]"
      "[variant_Red]"]
  have b: "createVariantAvailabilityMap_monitored percent_stub (Some (Some ''development''))
      console_log_ok [] (Some [variant_Red])
     = (case console_log_ok (''Variant Availability Stats:'',
            availabilityStats percent_stub [variant_Red]) [] of
          None \<Rightarrow> Inl ConsoleError
        | Some out' \<Rightarrow> Inr (createVariantAvailabilityMap (Some [variant_Red]), out'))"
    by blast
  from a b show ?thesis
    by (simp add: s console_log_ok_def)
qed

text \<open>The claim as stated fails: in development, on the same array, the call whose
  \<^verbatim>\<open>console.log\<close> throws returns no map, and the call whose \<^verbatim>\<open>console.log\<close> delivers the
  counts returns the map.\<close>

theorem monitoring_sink_throws_counterexample:
  "createVariantAvailabilityMap_monitored percent_stub (Some (Some ''development''))
      console_log_throws [] (Some [variant_Red]) = Inl ConsoleError
   \<and> createVariantAvailabilityMap_monitored percent_stub (Some (Some ''development''))
      console_log_ok [] (Some [variant_Red])
     = Inr (createVariantAvailabilityMap (Some [variant_Red]),
            [(''Variant Availability Stats:'', availabilityStats percent_stub [variant_Red])])"
  by (simp add: createVariantAvailabilityMap_monitored_def createVariantAvailabilityMap_def
      console_log_throws_def console_log_ok_def)

section \<open>The low-stock threshold\<close>

text \<open>
  Claim C8, as amended. No configuration is validated: a negative threshold is accepted
  and reaches the classification of every variant, where it only has the effect that no
  decision is marked low stock; \<open>isAvailable\<close> is as without a threshold.
\<close>

theorem negative_threshold_no_low_stock:
  assumes last: "name variant \<notin> name ` set post"
    and neg: "t < 0"
  shows "(\<exists>d. js_get VariantAvailability_lowStock_fields
            (createVariantAvailabilityMap_lowStock (Some (pre @ variant # post)) (Some t))
            (name variant) = JSObject d
          \<and> \<not> isLowStock d
          \<and> isAvailable d = isAvailable (variantAvailability variant)) \<and>
         (\<exists>d. js_get VariantAvailability_preOrder_fields
            (createVariantAvailabilityMap_preOrder (Some (pre @ variant # post)) (Some t))
            (name variant) = JSObject d
          \<and> \<not> isLowStock d)"
proof -
  note get = get_createVariantAvailabilityMap_lowStock [OF last]
    get_createVariantAvailabilityMap_preOrder [OF last]
  show ?thesis
    using neg
    by (simp add: get variantAvailability_sel variantAvailability_lowStock_sel
        variantAvailability_preOrder_sel)
qed

theorem negative_threshold_no_low_stock_witness:
  "(\<exists>d. js_get VariantAvailability_lowStock_fields
       (createVariantAvailabilityMap_lowStock (Some [variant_Yellow]) (Some (- 1))) ''Yellow''
       = JSObject d
     \<and> \<not> isLowStock d
     \<and> isAvailable d = isAvailable (variantAvailability variant_Yellow)) \<and>
   (\<exists>d. js_get VariantAvailability_preOrder_fields
       (createVariantAvailabilityMap_preOrder (Some [variant_Yellow]) (Some (- 1))) ''Yellow''
       = JSObject d
     \<and> \<not> isLowStock d)"
proof -
  have h1: "name variant_Yellow \<notin> name ` set []" by simp
  have h2: "(- 1 :: number) < 0" by simp
  have n: "name variant_Yellow = ''Yellow''" by (simp add: variant_Yellow_def)
  from negative_threshold_no_low_stock [OF h1 h2, of "[]"]
  show ?thesis unfolding n by simp
qed

text \<open>The claim as stated fails: with the threshold \<open>-1\<close> the function returns a map, and
  the unit test's low-stock variant is classified in it.\<close>

theorem negative_threshold_accepted_counterexample:
  "js_get VariantAvailability_lowStock_fields
     (createVariantAvailabilityMap_lowStock (Some [variant_Yellow]) (Some (- 1))) ''Yellow''
   = JSObject \<lparr>isAvailable = True, quantity = 5, availability = ''https://schema.org/InStock'',
       lowPrice = 50, isLowStock = False\<rparr>"
proof -
  have "name variant_Yellow \<notin> name ` set []" by simp
  from get_createVariantAvailabilityMap_lowStock [OF this, of "[]" "Some (- 1)"]
  show ?thesis
    by (simp add: variant_Yellow_def variantAvailability_lowStock_def firstOffer_def
        offerAvailability_def offerQuantity_def variantLowPrice_def InStock_def)
qed

section \<open>The recorded quantity\<close>

text \<open>
  Claim C9. When the first offer of a variant has no \<open>quantity\<close>, the quantity recorded
  in the map is the \<open>value\<close> of the offer's \<open>inventoryLevel\<close> when that is present, and zero
  when it is absent as well.
\<close>

theorem quantity_falls_back_to_inventoryLevel:
  assumes last: "name variant \<notin> name ` set post"
    and agg: "StoreProduct.offers variant = Some agg"
    and first: "StoreAggregateOffer.offers agg = Some (x # rest)"
    and absent: "StoreOffer.quantity x = None"
  shows "(\<exists>d. js_get VariantAvailability_fields
            (createVariantAvailabilityMap (Some (pre @ variant # post))) (name variant) = JSObject d
          \<and> quantity d = (case inventoryLevel x of None \<Rightarrow> 0 | Some il \<Rightarrow> value' il)) \<and>
         (\<exists>d. js_get VariantAvailability_lowStock_fields
            (createVariantAvailabilityMap_lowStock (Some (pre @ variant # post)) threshold)
            (name variant) = JSObject d
          \<and> quantity d = (case inventoryLevel x of None \<Rightarrow> 0 | Some il \<Rightarrow> value' il)) \<and>
         (\<exists>d. js_get VariantAvailability_preOrder_fields
            (createVariantAvailabilityMap_preOrder (Some (pre @ variant # post)) threshold)
            (name variant) = JSObject d
          \<and> quantity d = (case inventoryLevel x of None \<Rightarrow> 0 | Some il \<Rightarrow> value' il))"
proof -
  have fo: "firstOffer variant = Some x"
    using agg first by (rule firstOffer_Cons)
  have q: "offerQuantity (Some x) = (case inventoryLevel x of None \<Rightarrow> 0 | Some il \<Rightarrow> value' il)"
    using absent by (simp add: offerQuantity_def)
  note get = get_createVariantAvailabilityMap [OF last]
    get_createVariantAvailabilityMap_lowStock [OF last]
    get_createVariantAvailabilityMap_preOrder [OF last]
  show ?thesis
    by (simp add: get fo q variantAvailability_sel variantAvailability_lowStock_sel
        variantAvailability_preOrder_sel)
qed

theorem quantity_falls_back_to_inventoryLevel_witness:
  "(\<exists>d. js_get VariantAvailability_fields
       (createVariantAvailabilityMap (Some [variant_inventory])) ''980 - Champagne-51'' = JSObject d
     \<and> quantity d = 150) \<and>
   (\<exists>d. js_get VariantAvailability_lowStock_fields
       (createVariantAvailabilityMap_lowStock (Some [variant_inventory]) None)
       ''980 - Champagne-51'' = JSObject d
     \<and> quantity d = 150) \<and>
   (\<exists>d. js_get VariantAvailability_preOrder_fields
       (createVariantAvailabilityMap_preOrder (Some [variant_inventory]) None)
       ''980 - Champagne-51'' = JSObject d
     \<and> quantity d = 150)"
proof -
  let ?x = "\<lparr>StoreOffer.availability = Some ''https://schema.org/InStock'',
          quantity = None, inventoryLevel = Some \<lparr>value' = 150\<rparr>,
          seller = Some \<lparr>identifier' = ''1''\<rparr>\<rparr>"
  let ?agg = "\<lparr>StoreAggregateOffer.lowPrice = 406 / 10, offers = Some [?x]\<rparr>"
  have h1: "name variant_inventory \<notin> name ` set []" by simp
  have h2: "StoreProduct.offers variant_inventory = Some ?agg"
    by (simp add: variant_inventory_def)
  have h3: "StoreAggregateOffer.offers ?agg = Some (?x # [])" by simp
  have h4: "StoreOffer.quantity ?x = None" by simp
  have n: "name variant_inventory = ''980 - Champagne-51''"
    by (simp add: variant_inventory_def)
  from quantity_falls_back_to_inventoryLevel [OF h1 h2 h3 h4, of "[]" None]
  show ?thesis unfolding n by simp
qed

section \<open>Options without an entry\<close>

text \<open>
  Claim C10. The claim asks that an option value that is no key of the map is never
  disabled. On the empty map the code leaves \<^verbatim>\<open>Unknown\<close> enabled, as its unit test
  expects, and disables \<^verbatim>\<open>constructor\<close>, which is no own property of the map: the read
  finds the member of \<^verbatim>\<open>Object.prototype\<close>.
\<close>

theorem inherited_key_disabled:
  "\<not> isVariantDisabled VariantAvailability_fields ''Unknown''
       (empty_object :: VariantAvailability js_object)
   \<and> isVariantDisabled VariantAvailability_fields ''constructor''
       (empty_object :: VariantAvailability js_object)
   \<and> own (empty_object :: VariantAvailability js_object) ''constructor'' = None"
  by (simp add: isVariantDisabled_def js_get_def empty_object_def Object_prototype_keys_def)

end
